theory Spec2Isabelle
  imports Complex_Main
begin

section \<open>Outcomes of Python computations\<close>

text \<open>
  The agent of \<^verbatim>\<open>llm_with_function_calling.py\<close> is a Python class with two tool
  handlers, a tool table and one orchestration method. Every Python computation of the
  model ends in one of three ways: it returns a value, it raises an exception, or it
  leaves the fragment of Python that this theory models (floating point results, calls,
  keywords, characters outside the modelled alphabet). The third outcome is never turned
  into one of the other two, so a definite outcome of the model is the outcome of the
  interpreter, up to the interpreter's resource limits (integers are unbounded here, and
  there is no limit on nesting depth or on the number of digits of a literal).
\<close>

datatype exn =
    SyntaxError
  | ZeroDivisionError
  | NameError string
  | KeyError string
  | AttributeError string
  | ValueError exn
  | OtherError string

datatype 'a outcome = Returns 'a | Raises exn | Unmodelled

definition bind_outcome :: "'a outcome \<Rightarrow> ('a \<Rightarrow> 'b outcome) \<Rightarrow> 'b outcome" where
  "bind_outcome m f = (case m of Returns x \<Rightarrow> f x | Raises e \<Rightarrow> Raises e | Unmodelled \<Rightarrow> Unmodelled)"


section \<open>Python expressions: tokens, syntax trees, evaluation\<close>

subsection \<open>Characters\<close>

definition is_digit :: "char \<Rightarrow> bool" where
  "is_digit c \<longleftrightarrow> c \<in> set ''0123456789''"

definition is_letter :: "char \<Rightarrow> bool" where
  "is_letter c \<longleftrightarrow> c \<in> set ''abcdefghijklmnopqrstuvwxyzABCDEFGHIJKLMNOPQRSTUVWXYZ''"

definition is_number_char :: "char \<Rightarrow> bool" where
  "is_number_char c \<longleftrightarrow> is_digit c \<or> c = CHR ''_''"

definition is_ident_char :: "char \<Rightarrow> bool" where
  "is_ident_char c \<longleftrightarrow> is_letter c \<or> is_digit c \<or> c = CHR ''_''"

definition digit_val :: "char \<Rightarrow> nat" where
  "digit_val c = of_char c - 48"

definition digit_char :: "nat \<Rightarrow> char" where
  "digit_char d = ''0123456789'' ! d"

subsection \<open>Integer literals\<close>

text \<open>
  A decimal literal is a run of digits in which single underscores may separate digits
  (\<^verbatim>\<open>1_000\<close>). An underscore that is not followed by a digit is a syntax error, and so
  is a literal of more than one digit that starts with \<^verbatim>\<open>0\<close> and is not all zeros.
\<close>

fun underscores_ok :: "string \<Rightarrow> bool" where
  "underscores_ok [] = True"
| "underscores_ok [c] = (c \<noteq> CHR ''_'')"
| "underscores_ok (c # d # cs) = ((c = CHR ''_'' \<longrightarrow> d \<noteq> CHR ''_'') \<and> underscores_ok (d # cs))"

definition digits_of :: "string \<Rightarrow> string" where
  "digits_of run = filter (\<lambda>c. c \<noteq> CHR ''_'') run"

definition leading_zeros :: "string \<Rightarrow> bool" where
  "leading_zeros run \<longleftrightarrow> hd run = CHR ''0'' \<and> (\<exists>c \<in> set (digits_of run). c \<noteq> CHR ''0'')"

definition decimal :: "string \<Rightarrow> nat" where
  "decimal ds = foldl (\<lambda>a c. 10 * a + digit_val c) 0 ds"

subsection \<open>Tokens\<close>

datatype token =
    NUMBER int
  | NAME string
  | PLUS | MINUS | STAR | SLASH | DOUBLESTAR | DOUBLESLASH
  | LPAR | RPAR

text \<open>
  Words that are not plain names in an expression: the keywords of Python 3, the
  compile-time constant \<^verbatim>\<open>__debug__\<close>, and \<^verbatim>\<open>__builtins__\<close>, the one key that the
  handler puts into the globals of \<^verbatim>\<open>eval\<close>. The model leaves them alone.
\<close>

definition reserved :: "string list" where
  "reserved = [''False'', ''None'', ''True'', ''and'', ''as'', ''assert'', ''async'', ''await'',
     ''break'', ''class'', ''continue'', ''def'', ''del'', ''elif'', ''else'', ''except'',
     ''finally'', ''for'', ''from'', ''global'', ''if'', ''import'', ''in'', ''is'', ''lambda'',
     ''nonlocal'', ''not'', ''or'', ''pass'', ''raise'', ''return'', ''try'', ''while'', ''with'',
     ''yield'', ''__debug__'', ''__builtins__'']"

text \<open>
  Literals with a radix prefix (\<^verbatim>\<open>0x1F\<close>, \<^verbatim>\<open>0o17\<close>, \<^verbatim>\<open>0b101\<close>): after the prefix come
  digits of the radix, where single underscores may separate digits and may follow the
  prefix.
\<close>

definition radix_of :: "char \<Rightarrow> nat option" where
  "radix_of c =
    (if c = CHR ''x'' \<or> c = CHR ''X'' then Some 16
     else if c = CHR ''o'' \<or> c = CHR ''O'' then Some 8
     else if c = CHR ''b'' \<or> c = CHR ''B'' then Some 2
     else None)"

definition hex_val :: "char \<Rightarrow> nat option" where
  "hex_val c =
    (if is_digit c then Some (digit_val c)
     else if c \<in> set ''abcdef'' then Some (of_char c - 87)
     else if c \<in> set ''ABCDEF'' then Some (of_char c - 55)
     else None)"

definition radix_value :: "nat \<Rightarrow> string \<Rightarrow> nat" where
  "radix_value base ds = foldl (\<lambda>a c. base * a + the (hex_val c)) 0 ds"

definition radix_literal :: "nat \<Rightarrow> string \<Rightarrow> nat outcome" where
  "radix_literal base run =
    (if \<exists>c \<in> set run. c \<noteq> CHR ''_'' \<and> hex_val c = None then Unmodelled
     else if base < 16 \<and> (\<exists>c \<in> set run. is_letter c) then Unmodelled
     else if digits_of run = [] \<or> \<not> underscores_ok run
          \<or> (\<exists>c \<in> set (digits_of run). base \<le> the (hex_val c))
       then Raises SyntaxError
     else Returns (radix_value base (digits_of run)))"

text \<open>
  The tokenizer, on the alphabet of digits, letters, underscore and \<^verbatim>\<open>+ - * / ( )\<close>, with
  the longest match for \<^verbatim>\<open>**\<close> and \<^verbatim>\<open>//\<close>. A letter or a dot right after a decimal
  number (an exponent, an imaginary suffix, a keyword, a fraction), a letter after a radix
  literal that is not one of its digits, and any other character are outside the model.
\<close>

definition continues_number :: "char \<Rightarrow> bool" where
  "continues_number c \<longleftrightarrow> is_letter c \<or> c = CHR ''.''"

function tokenize :: "string \<Rightarrow> token list outcome" where
  "tokenize [] = Returns []"
| "tokenize (c # cs) =
    (if c = CHR ''0'' \<and> cs \<noteq> [] \<and> radix_of (hd cs) \<noteq> None then
       (let run = takeWhile is_ident_char (tl cs); rest = dropWhile is_ident_char (tl cs) in
        bind_outcome (radix_literal (the (radix_of (hd cs))) run)
          (\<lambda>v. bind_outcome (tokenize rest) (\<lambda>ts. Returns (NUMBER (int v) # ts))))
     else if is_digit c then
       (let run = c # takeWhile is_number_char cs; rest = dropWhile is_number_char cs in
        if rest \<noteq> [] \<and> continues_number (hd rest) then Unmodelled
        else if \<not> underscores_ok run \<or> leading_zeros run then Raises SyntaxError
        else bind_outcome (tokenize rest)
               (\<lambda>ts. Returns (NUMBER (int (decimal (digits_of run))) # ts)))
     else if is_letter c \<or> c = CHR ''_'' then
       (let run = c # takeWhile is_ident_char cs; rest = dropWhile is_ident_char cs in
        if run \<in> set reserved then Unmodelled
        else bind_outcome (tokenize rest) (\<lambda>ts. Returns (NAME run # ts)))
     else if c = CHR ''+'' then bind_outcome (tokenize cs) (\<lambda>ts. Returns (PLUS # ts))
     else if c = CHR ''-'' then bind_outcome (tokenize cs) (\<lambda>ts. Returns (MINUS # ts))
     else if c = CHR ''('' then bind_outcome (tokenize cs) (\<lambda>ts. Returns (LPAR # ts))
     else if c = CHR '')'' then bind_outcome (tokenize cs) (\<lambda>ts. Returns (RPAR # ts))
     else if c = CHR ''*'' then
       (case cs of
          [] \<Rightarrow> Returns [STAR]
        | d # ds \<Rightarrow>
            if d = CHR ''*'' then bind_outcome (tokenize ds) (\<lambda>ts. Returns (DOUBLESTAR # ts))
            else bind_outcome (tokenize cs) (\<lambda>ts. Returns (STAR # ts)))
     else if c = CHR ''/'' then
       (case cs of
          [] \<Rightarrow> Returns [SLASH]
        | d # ds \<Rightarrow>
            if d = CHR ''/'' then bind_outcome (tokenize ds) (\<lambda>ts. Returns (DOUBLESLASH # ts))
            else bind_outcome (tokenize cs) (\<lambda>ts. Returns (SLASH # ts)))
     else Unmodelled)"
  by pat_completeness auto
termination
  by (relation "measure length")
     (auto simp: less_Suc_eq_le length_dropWhile_le
       intro: le_trans[OF length_dropWhile_le[of _ "tl cs" for cs]])

declare tokenize.simps(2) [simp del]

subsection \<open>Syntax trees\<close>

datatype operator = Add | Sub | Mult | Div | FloorDiv | Pow

datatype unaryop = UAdd | USub

datatype pyexpr =
    Constant int
  | Name string
  | BinOp pyexpr operator pyexpr
  | UnaryOp unaryop pyexpr

text \<open>
  The parser follows the grammar of Python expressions on these tokens:
  \<^verbatim>\<open>sum: sum ('+'|'-') term | term\<close>,
  \<^verbatim>\<open>term: term ('*'|'/'|'//') factor | factor\<close>,
  \<^verbatim>\<open>factor: ('+'|'-') factor | power\<close>,
  \<^verbatim>\<open>power: primary '**' factor | primary\<close>,
  \<^verbatim>\<open>atom: NUMBER | NAME | '(' sum ')'\<close>.
  A parenthesis right after a primary is a call, and \<^verbatim>\<open>()\<close> is the empty tuple: both
  are outside the model. The first argument bounds the depth of the recursion; running
  out of it is outside the model too.
\<close>

fun sum_op :: "token list \<Rightarrow> (operator \<times> token list) option" where
  "sum_op (PLUS # r) = Some (Add, r)"
| "sum_op (MINUS # r) = Some (Sub, r)"
| "sum_op ts = None"

fun term_op :: "token list \<Rightarrow> (operator \<times> token list) option" where
  "term_op (STAR # r) = Some (Mult, r)"
| "term_op (SLASH # r) = Some (Div, r)"
| "term_op (DOUBLESLASH # r) = Some (FloorDiv, r)"
| "term_op ts = None"

fun unary_op :: "token list \<Rightarrow> (unaryop \<times> token list) option" where
  "unary_op (PLUS # r) = Some (UAdd, r)"
| "unary_op (MINUS # r) = Some (USub, r)"
| "unary_op ts = None"

fun power_op :: "token list \<Rightarrow> token list option" where
  "power_op (DOUBLESTAR # r) = Some r"
| "power_op ts = None"

fun no_call :: "pyexpr \<Rightarrow> token list \<Rightarrow> (pyexpr \<times> token list) outcome" where
  "no_call e (LPAR # r) = Unmodelled"
| "no_call e ts = Returns (e, ts)"

fun close_group :: "pyexpr \<Rightarrow> token list \<Rightarrow> (pyexpr \<times> token list) outcome" where
  "close_group e (RPAR # r) = no_call e r"
| "close_group e ts = Raises SyntaxError"

datatype atom_head = Literal pyexpr "token list" | Group "token list" | EmptyTuple | NoAtom

fun atom_start :: "token list \<Rightarrow> atom_head" where
  "atom_start (NUMBER v # r) = Literal (Constant v) r"
| "atom_start (NAME x # r) = Literal (Name x) r"
| "atom_start (LPAR # RPAR # r) = EmptyTuple"
| "atom_start (LPAR # r) = Group r"
| "atom_start ts = NoAtom"

text \<open>
  One function for all rules of the grammar, indexed by the rule; \<open>SumRest l\<close> and
  \<open>TermRest l\<close> are the loops of the left-associative rules, with the operand parsed so
  far.
\<close>

datatype rule = Sum | SumRest pyexpr | Term | TermRest pyexpr | Factor | Power | Atom

fun parse_rule :: "nat \<Rightarrow> rule \<Rightarrow> token list \<Rightarrow> (pyexpr \<times> token list) outcome" where
  "parse_rule 0 rl ts = Unmodelled"
| "parse_rule (Suc n) Sum ts =
    bind_outcome (parse_rule n Term ts) (\<lambda>(l, r). parse_rule n (SumRest l) r)"
| "parse_rule (Suc n) (SumRest l) ts =
    (case sum_op ts of
       None \<Rightarrow> Returns (l, ts)
     | Some (op, r) \<Rightarrow>
         bind_outcome (parse_rule n Term r)
           (\<lambda>(t, r'). parse_rule n (SumRest (BinOp l op t)) r'))"
| "parse_rule (Suc n) Term ts =
    bind_outcome (parse_rule n Factor ts) (\<lambda>(l, r). parse_rule n (TermRest l) r)"
| "parse_rule (Suc n) (TermRest l) ts =
    (case term_op ts of
       None \<Rightarrow> Returns (l, ts)
     | Some (op, r) \<Rightarrow>
         bind_outcome (parse_rule n Factor r)
           (\<lambda>(f, r'). parse_rule n (TermRest (BinOp l op f)) r'))"
| "parse_rule (Suc n) Factor ts =
    (case unary_op ts of
       None \<Rightarrow> parse_rule n Power ts
     | Some (op, r) \<Rightarrow>
         bind_outcome (parse_rule n Factor r) (\<lambda>(e, r'). Returns (UnaryOp op e, r')))"
| "parse_rule (Suc n) Power ts =
    bind_outcome (parse_rule n Atom ts) (\<lambda>(a, r).
      case power_op r of
        None \<Rightarrow> Returns (a, r)
      | Some r' \<Rightarrow>
          bind_outcome (parse_rule n Factor r') (\<lambda>(e, r''). Returns (BinOp a Pow e, r'')))"
| "parse_rule (Suc n) Atom ts =
    (case atom_start ts of
       Literal e r \<Rightarrow> no_call e r
     | Group r \<Rightarrow> bind_outcome (parse_rule n Sum r) (\<lambda>(e, r'). close_group e r')
     | EmptyTuple \<Rightarrow> Unmodelled
     | NoAtom \<Rightarrow> Raises SyntaxError)"

definition parse_fuel :: "token list \<Rightarrow> nat" where
  "parse_fuel ts = 8 * length ts + 8"

definition parse :: "token list \<Rightarrow> pyexpr outcome" where
  "parse ts =
    bind_outcome (parse_rule (parse_fuel ts) Sum ts) (\<lambda>(e, r).
      case r of [] \<Rightarrow> Returns e | _ \<Rightarrow> Raises SyntaxError)"

subsection \<open>Evaluation\<close>

text \<open>
  Integer arithmetic is exact. True division and a negative exponent give a float, which
  the model does not compute; with a zero divisor (or base) they raise
  \<^verbatim>\<open>ZeroDivisionError\<close> like \<^verbatim>\<open>//\<close>. The globals hold no name but \<^verbatim>\<open>__builtins__\<close>, which
  is empty, so every name is unbound.
\<close>

fun binop_int :: "operator \<Rightarrow> int \<Rightarrow> int \<Rightarrow> int outcome" where
  "binop_int Add a b = Returns (a + b)"
| "binop_int Sub a b = Returns (a - b)"
| "binop_int Mult a b = Returns (a * b)"
| "binop_int Div a b = (if b = 0 then Raises ZeroDivisionError else Unmodelled)"
| "binop_int FloorDiv a b = (if b = 0 then Raises ZeroDivisionError else Returns (a div b))"
| "binop_int Pow a b =
    (if 0 \<le> b then Returns (a ^ nat b)
     else if a = 0 then Raises ZeroDivisionError
     else Unmodelled)"

fun unaryop_int :: "unaryop \<Rightarrow> int \<Rightarrow> int" where
  "unaryop_int UAdd a = a"
| "unaryop_int USub a = - a"

fun eval_expr :: "pyexpr \<Rightarrow> int outcome" where
  "eval_expr (Constant v) = Returns v"
| "eval_expr (Name x) = Raises (NameError x)"
| "eval_expr (BinOp l op r) =
    bind_outcome (eval_expr l) (\<lambda>a. bind_outcome (eval_expr r) (\<lambda>b. binop_int op a b))"
| "eval_expr (UnaryOp op e) = bind_outcome (eval_expr e) (\<lambda>a. Returns (unaryop_int op a))"

text \<open>\<^verbatim>\<open>eval(source, {"__builtins__": {}})\<close>: tokenize, parse, evaluate.\<close>

definition eval :: "string \<Rightarrow> int outcome" where
  "eval source = bind_outcome (tokenize source) (\<lambda>ts. bind_outcome (parse ts) eval_expr)"


section \<open>The agent\<close>

subsection \<open>Data\<close>

text \<open>
  Values that the chat backend sends as tool arguments (JSON), and the values that the
  two handlers return: an integer, or the dictionary of three strings of the time tool.
\<close>

datatype jvalue =
    JNull
  | JBool bool
  | JInt int
  | JStr string
  | JList "jvalue list"
  | JObj "(string \<times> jvalue) list"

type_synonym arguments = "(string \<times> jvalue) list"

datatype pyvalue = PyInt int | PyDict "(string \<times> string) list"

datatype tool_function = ToolFunction (fname: string) (arguments: arguments)

record tool_call =
  tc_function :: "tool_function option"

text \<open>
  A message is a dictionary; a key that may be missing is an option (\<open>None\<close>: the key is
  absent, and subscripting raises \<^verbatim>\<open>KeyError\<close>).
\<close>

record message =
  role :: string
  content :: "string option"
  name :: "string option"
  tool_calls :: "tool_call list option"

record response =
  message :: message

record parameter =
  param_type :: string
  param_description :: string
  enum :: "string list option"

record tool_definition =
  def_type :: string
  def_name :: string
  def_description :: string
  def_properties :: "(string \<times> parameter) list"
  def_required :: "string list"

record options =
  temperature :: rat

record request =
  model :: string
  messages :: "message list"
  tools :: "tool_definition list option"
  options :: options

text \<open>
  The chat backend is outside the program: a function of its own state and the request,
  which answers or raises.
\<close>

type_synonym 'b chat = "'b \<Rightarrow> request \<Rightarrow> (exn + response) \<times> 'b"

text \<open>The host clock, as \<^verbatim>\<open>datetime.datetime.now()\<close> and the local zone's name read it.\<close>

record datetime =
  year :: nat
  month :: nat
  day :: nat
  hour :: nat
  minute :: nat
  second :: nat

record host =
  now :: datetime
  tzname :: "string option"

definition MODEL :: string where
  "MODEL = ''llama2:7b''"

definition TEMPERATURE :: rat where
  "TEMPERATURE = 7 / 10"

subsection \<open>Strings of values\<close>

function show_nat :: "nat \<Rightarrow> string" where
  "show_nat n = (if n < 10 then [digit_char n] else show_nat (n div 10) @ [digit_char (n mod 10)])"
  by pat_completeness auto
termination
  by (relation "measure id") auto

declare show_nat.simps [simp del]

definition str_int :: "int \<Rightarrow> string" where
  "str_int i = (if i < 0 then CHR ''-'' # show_nat (nat (- i)) else show_nat (nat i))"

text \<open>
  \<^verbatim>\<open>repr\<close> of a string puts it between single quotes when it is printable ASCII with no
  quote and no backslash; other strings are outside the model.
\<close>

definition is_plain :: "char \<Rightarrow> bool" where
  "is_plain c \<longleftrightarrow> 32 \<le> (of_char c :: nat) \<and> (of_char c :: nat) < 127
     \<and> c \<noteq> CHR 0x27 \<and> c \<noteq> CHR 0x22 \<and> c \<noteq> CHR 0x5C"

definition repr_str :: "string \<Rightarrow> string outcome" where
  "repr_str s = (if list_all is_plain s then Returns ([CHR 0x27] @ s @ [CHR 0x27]) else Unmodelled)"

fun repr_items :: "(string \<times> string) list \<Rightarrow> string outcome" where
  "repr_items [] = Returns []"
| "repr_items ((k, v) # kvs) =
    bind_outcome (repr_str k) (\<lambda>rk. bind_outcome (repr_str v) (\<lambda>rv.
      bind_outcome (repr_items kvs) (\<lambda>rest.
        Returns (rk @ '': '' @ rv @ (if kvs = [] then [] else '', '' @ rest)))))"

fun str_value :: "pyvalue \<Rightarrow> string outcome" where
  "str_value (PyInt i) = Returns (str_int i)"
| "str_value (PyDict kvs) = bind_outcome (repr_items kvs) (\<lambda>s. Returns (''{'' @ s @ ''}''))"

subsection \<open>The tool handlers\<close>

definition pad2 :: "nat \<Rightarrow> string" where
  "pad2 n = (if n < 10 then CHR ''0'' # show_nat n else show_nat n)"

text \<open>\<^verbatim>\<open>strftime("%H:%M:%S")\<close>\<close>

definition strftime_HMS :: "datetime \<Rightarrow> string" where
  "strftime_HMS t = pad2 (hour t) @ '':'' @ pad2 (minute t) @ '':'' @ pad2 (second t)"

text \<open>
  \<^verbatim>\<open>strftime("%Y-%m-%d")\<close>. Whether \<^verbatim>\<open>%Y\<close> pads a year below 1000 with zeros depends on
  the platform, so such a year is outside the model.
\<close>

definition strftime_Ymd :: "datetime \<Rightarrow> string outcome" where
  "strftime_Ymd t =
    (if 1000 \<le> year t then Returns (show_nat (year t) @ ''-'' @ pad2 (month t) @ ''-'' @ pad2 (day t))
     else Unmodelled)"

definition get_current_time :: "host \<Rightarrow> arguments option \<Rightarrow> pyvalue outcome" where
  "get_current_time h args =
    bind_outcome (strftime_Ymd (now h)) (\<lambda>date.
      Returns (PyDict
        [(''current_time'', strftime_HMS (now h)),
         (''current_date'', date),
         (''timezone'', (case tzname h of None \<Rightarrow> ''UTC'' | Some z \<Rightarrow> if z = [] then ''UTC'' else z))]))"

text \<open>\<^verbatim>\<open>expression.replace('^', '**')\<close>\<close>

definition replace_caret :: "string \<Rightarrow> string" where
  "replace_caret s = concat (map (\<lambda>c. if c = CHR ''^'' then ''**'' else [c]) s)"

text \<open>
  \<^verbatim>\<open>args.get("expression", "")\<close>, the replacement, and \<^verbatim>\<open>eval\<close> inside \<^verbatim>\<open>try\<close>: every
  exception of the evaluation becomes a \<^verbatim>\<open>ValueError\<close> that carries it. A value that is not
  a string has no \<^verbatim>\<open>replace\<close>; that \<^verbatim>\<open>AttributeError\<close> is raised before the \<^verbatim>\<open>try\<close>.
\<close>

definition evaluate_arithmetic :: "arguments \<Rightarrow> pyvalue outcome" where
  "evaluate_arithmetic args =
    (case (case map_of args ''expression'' of None \<Rightarrow> JStr [] | Some v \<Rightarrow> v) of
       JStr expression \<Rightarrow>
         (let safe_expression = replace_caret expression in
          case eval safe_expression of
            Returns result \<Rightarrow> Returns (PyInt result)
          | Raises e \<Rightarrow> Raises (ValueError e)
          | Unmodelled \<Rightarrow> Unmodelled)
     | _ \<Rightarrow> Raises (AttributeError ''replace''))"

subsection \<open>The tool table\<close>

record tool =
  tool_def :: tool_definition
  handler :: "host \<Rightarrow> arguments \<Rightarrow> pyvalue outcome"

definition TOOLS :: "(string \<times> tool) list" where
  "TOOLS =
    [(''evaluate_arithmetic'',
      \<lparr>tool_def =
         \<lparr>def_type = ''function'', def_name = ''evaluate_arithmetic'',
          def_description = ''Evaluate a simple arithmetic expression provided as input. The expression should be numeric only and may contain +, -, *, /, parentheses, and '' @ [CHR 0x27] @ ''^'' @ [CHR 0x27] @ '' for exponentiation.'',
          def_properties =
            [(''expression'',
              \<lparr>param_type = ''string'',
               param_description = ''The arithmetic expression to evaluate'',
               enum = None\<rparr>)],
          def_required = [''expression'']\<rparr>,
       handler = (\<lambda>h args. evaluate_arithmetic args)\<rparr>),
     (''get_current_time'',
      \<lparr>tool_def =
         \<lparr>def_type = ''function'', def_name = ''get_current_time'',
          def_description = ''Get the current time, date, and timezone information'',
          def_properties =
            [(''format'',
              \<lparr>param_type = ''string'',
               param_description = ''Optional format for the time (default, 24h, 12h)'',
               enum = Some [''default'', ''24h'', ''12h'']\<rparr>)],
          def_required = []\<rparr>,
       handler = (\<lambda>h args. get_current_time h (Some args))\<rparr>)]"

definition get_tool_definitions :: "tool_definition list" where
  "get_tool_definitions = map (\<lambda>(nm, t). tool_def t) TOOLS"

subsection \<open>The orchestration loop\<close>

text \<open>
  What a call of \<^verbatim>\<open>process_query\<close> does besides returning: it prints, calls the chat
  backend and calls handlers. The trace lists these events in order.
\<close>

datatype event =
    PrintPrompt "message list"
  | ChatCall request
  | PrintResponse response
  | HandlerCall string arguments "pyvalue outcome"
  | PrintToolError exn

fun is_ValueError :: "exn \<Rightarrow> bool" where
  "is_ValueError (ValueError e) = True"
| "is_ValueError e = False"

definition user_message :: "string \<Rightarrow> message" where
  "user_message user_query = \<lparr>role = ''user'', content = Some user_query, name = None, tool_calls = None\<rparr>"

definition tool_message :: "string \<Rightarrow> string \<Rightarrow> message" where
  "tool_message tool_name text = \<lparr>role = ''tool'', content = Some text, name = Some tool_name, tool_calls = None\<rparr>"

text \<open>
  The two requests: the first carries the user's message and the definitions of all tools,
  the second the user's message, the assistant's message and the tool's result, and no
  tools.
\<close>

definition initial_request :: "string \<Rightarrow> string \<Rightarrow> request" where
  "initial_request mdl user_query =
    \<lparr>model = mdl, messages = [user_message user_query], tools = Some get_tool_definitions,
     options = \<lparr>temperature = TEMPERATURE\<rparr>\<rparr>"

definition followup_request :: "string \<Rightarrow> string \<Rightarrow> message \<Rightarrow> string \<Rightarrow> string \<Rightarrow> request" where
  "followup_request mdl user_query msg tool_name text =
    \<lparr>model = mdl, messages = [user_message user_query, msg, tool_message tool_name text],
     tools = None, options = \<lparr>temperature = TEMPERATURE\<rparr>\<rparr>"

text \<open>
  The body of the \<^verbatim>\<open>for\<close> loop, for one requested tool call: the result is \<open>None\<close>
  when the loop goes on with the next call, and the outcome of \<^verbatim>\<open>process_query\<close>
  otherwise, together with the backend's new state and the events of this round. The
  \<^verbatim>\<open>try\<close> block holds the table lookup, the handler call, \<^verbatim>\<open>str\<close>, the second chat call
  and the two subscripts of its response; \<^verbatim>\<open>except ValueError\<close> prints and goes on.
\<close>

definition tool_call_step ::
  "'b chat \<Rightarrow> host \<Rightarrow> string \<Rightarrow> string \<Rightarrow> message \<Rightarrow> tool_call \<Rightarrow> 'b
    \<Rightarrow> string outcome option \<times> 'b \<times> event list" where
  "tool_call_step chat h mdl user_query msg tc b =
    (case tc_function tc of
       None \<Rightarrow> (None, b, [])
     | Some f \<Rightarrow>
        (case map_of TOOLS (fname f) of
           None \<Rightarrow> (Some (Raises (KeyError (fname f))), b, [])
         | Some t \<Rightarrow>
            (let tool_result = handler t h (arguments f);
                 called = [HandlerCall (fname f) (arguments f) tool_result]
             in case bind_outcome tool_result str_value of
                  Unmodelled \<Rightarrow> (Some Unmodelled, b, called)
                | Raises e \<Rightarrow>
                    if is_ValueError e then (None, b, called @ [PrintToolError e])
                    else (Some (Raises e), b, called)
                | Returns text \<Rightarrow>
                   (let req = followup_request mdl user_query msg (fname f) text;
                        asked = called @ [PrintPrompt (messages req), ChatCall req]
                    in case chat b req of
                         (Inl e, b') \<Rightarrow>
                           if is_ValueError e then (None, b', asked @ [PrintToolError e])
                           else (Some (Raises e), b', asked)
                       | (Inr followup_response, b') \<Rightarrow>
                           (case content (message followup_response) of
                              None \<Rightarrow>
                                (Some (Raises (KeyError ''content'')), b',
                                 asked @ [PrintResponse followup_response])
                            | Some c \<Rightarrow>
                                (Some (Returns c), b',
                                 asked @ [PrintResponse followup_response]))))))"

fun tool_loop ::
  "'b chat \<Rightarrow> host \<Rightarrow> string \<Rightarrow> string \<Rightarrow> message \<Rightarrow> tool_call list \<Rightarrow> 'b
    \<Rightarrow> string outcome option \<times> 'b \<times> event list" where
  "tool_loop chat h mdl user_query msg [] b = (None, b, [])"
| "tool_loop chat h mdl user_query msg (tc # tcs) b =
    (case tool_call_step chat h mdl user_query msg tc b of
       (Some result, b', evs) \<Rightarrow> (Some result, b', evs)
     | (None, b', evs) \<Rightarrow>
        (case tool_loop chat h mdl user_query msg tcs b' of
           (result, b'', evs') \<Rightarrow> (result, b'', evs @ evs')))"

datatype LLMAgent = LLMAgent (self_model: string)

definition process_query ::
  "'b chat \<Rightarrow> host \<Rightarrow> LLMAgent \<Rightarrow> string \<Rightarrow> 'b \<Rightarrow> string outcome \<times> 'b \<times> event list" where
  "process_query chat h self user_query b =
    (let req = initial_request (self_model self) user_query;
         tr0 = [PrintPrompt (messages req), ChatCall req]
     in case chat b req of
          (Inl e, b1) \<Rightarrow> (Raises e, b1, tr0)
        | (Inr initial_response, b1) \<Rightarrow>
           (let msg = message initial_response; tr1 = tr0 @ [PrintResponse initial_response]
            in case tool_calls msg of
                 None \<Rightarrow> (Raises (KeyError ''tool_calls''), b1, tr1)
               | Some tcs \<Rightarrow>
                  (case (if tcs \<noteq> [] then tool_loop chat h (self_model self) user_query msg tcs b1
                         else (None, b1, [])) of
                     (Some result, b2, evs) \<Rightarrow> (result, b2, tr1 @ evs)
                   | (None, b2, evs) \<Rightarrow>
                      (case content msg of
                         None \<Rightarrow> (Raises (KeyError ''content''), b2, tr1 @ evs)
                       | Some c \<Rightarrow> (Returns c, b2, tr1 @ evs)))))"


section \<open>Reading traces and requests\<close>

fun is_ChatCall :: "event \<Rightarrow> bool" where
  "is_ChatCall (ChatCall r) = True"
| "is_ChatCall e = False"

fun is_HandlerCall :: "event \<Rightarrow> bool" where
  "is_HandlerCall (HandlerCall n a r) = True"
| "is_HandlerCall e = False"

fun is_returned_call :: "event \<Rightarrow> bool" where
  "is_returned_call (HandlerCall n a (Returns v)) = True"
| "is_returned_call e = False"

definition chat_calls :: "event list \<Rightarrow> nat" where
  "chat_calls tr = length (filter is_ChatCall tr)"

definition handler_calls :: "event list \<Rightarrow> nat" where
  "handler_calls tr = length (filter is_HandlerCall tr)"

definition returned_calls :: "event list \<Rightarrow> nat" where
  "returned_calls tr = length (filter is_returned_call tr)"

definition result_of :: "'a \<times> 'b \<times> 'c \<Rightarrow> 'a" where
  "result_of x = fst x"

definition trace_of :: "'a \<times> 'b \<times> 'c \<Rightarrow> 'c" where
  "trace_of x = snd (snd x)"

text \<open>
  A requested call is \<open>caught\<close> when the loop goes past it without a second chat call: it
  has no \<^verbatim>\<open>function\<close> key, or its handler raises \<^verbatim>\<open>ValueError\<close>. It \<open>fails\<close> when no
  handler returns a value for it: it is caught, or its tool is unknown, or its handler
  raises any exception.
\<close>

definition caught :: "host \<Rightarrow> tool_call \<Rightarrow> bool" where
  "caught h tc \<longleftrightarrow>
    (case tc_function tc of
       None \<Rightarrow> True
     | Some f \<Rightarrow>
        (case map_of TOOLS (fname f) of
           None \<Rightarrow> False
         | Some t \<Rightarrow>
            (case handler t h (arguments f) of Raises e \<Rightarrow> is_ValueError e | _ \<Rightarrow> False)))"

definition fails :: "host \<Rightarrow> tool_call \<Rightarrow> bool" where
  "fails h tc \<longleftrightarrow>
    (case tc_function tc of
       None \<Rightarrow> True
     | Some f \<Rightarrow>
        (case map_of TOOLS (fname f) of
           None \<Rightarrow> True
         | Some t \<Rightarrow> (case handler t h (arguments f) of Raises e \<Rightarrow> True | _ \<Rightarrow> False)))"

definition handler_fails :: "host \<Rightarrow> tool_call \<Rightarrow> bool" where
  "handler_fails h tc \<longleftrightarrow>
    (case tc_function tc of
       None \<Rightarrow> False
     | Some f \<Rightarrow>
        (case map_of TOOLS (fname f) of
           None \<Rightarrow> False
         | Some t \<Rightarrow>
            (case handler t h (arguments f) of Raises e \<Rightarrow> is_ValueError e | _ \<Rightarrow> False)))"

text \<open>The events of a caught call: the handler's call and the printed error.\<close>

definition failure_events :: "host \<Rightarrow> tool_call \<Rightarrow> event list" where
  "failure_events h tc =
    (case tc_function tc of
       None \<Rightarrow> []
     | Some f \<Rightarrow>
        (case map_of TOOLS (fname f) of
           None \<Rightarrow> []
         | Some t \<Rightarrow>
            (case handler t h (arguments f) of
               Raises e \<Rightarrow> [HandlerCall (fname f) (arguments f) (Raises e), PrintToolError e]
             | _ \<Rightarrow> [])))"

definition failure_log :: "host \<Rightarrow> tool_call list \<Rightarrow> event list" where
  "failure_log h tcs = concat (map (failure_events h) tcs)"




subsection \<open>The clock and the formats of the time tool\<close>





subsection \<open>Sample inputs\<close>

text \<open>A backend that plays back a list of answers, and one that always gives the same.\<close>

definition scripted :: "(exn + response) list chat" where
  "scripted b req = (case b of [] \<Rightarrow> (Inl (OtherError ''no answer left''), []) | r # rs \<Rightarrow> (r, rs))"


definition sample_host :: host where
  "sample_host =
    \<lparr>now = \<lparr>year = 2025, month = 3, day = 9, hour = 7, minute = 5, second = 42\<rparr>,
     tzname = Some ''CET''\<rparr>"

definition assistant_message :: "string option \<Rightarrow> tool_call list option \<Rightarrow> message" where
  "assistant_message c tcs = \<lparr>role = ''assistant'', content = c, name = None, tool_calls = tcs\<rparr>"

definition arithmetic_call :: "jvalue \<Rightarrow> tool_call" where
  "arithmetic_call v =
    \<lparr>tc_function = Some (ToolFunction ''evaluate_arithmetic'' [(''expression'', v)])\<rparr>"

definition named_call :: "string \<Rightarrow> tool_call" where
  "named_call tool_name = \<lparr>tc_function = Some (ToolFunction tool_name [])\<rparr>"

definition bare_call :: tool_call where
  "bare_call = \<lparr>tc_function = None\<rparr>"

definition answer :: "string \<Rightarrow> tool_call list \<Rightarrow> response" where
  "answer text tcs = \<lparr>message = assistant_message (Some text) (Some tcs)\<rparr>"

definition bare_answer :: "string \<Rightarrow> response" where
  "bare_answer text = \<lparr>message = assistant_message (Some text) None\<rparr>"


section \<open>Arithmetic expressions, as the specification reads them\<close>

text \<open>
  The specification speaks of arithmetic expressions with the standard precedence of the
  operators and with \<^verbatim>\<open>^\<close> for exponentiation. The following grammar is that reading,
  independent of the tokenizer and the parser above: an expression is a tree, \<open>level\<close> says
  which rule of the grammar a tree is an instance of (0 a sum, 1 a product, 2 a signed
  factor, 3 a power, 4 a number or a parenthesis), and a tree is \<open>grammatical\<close> when the
  operands of every operator are of a level that the operator admits without parentheses:
  sums and products associate to the left, a power has an atom as base and associates to
  the right, and a sign applies to a signed factor or a power. \<open>render\<close> writes the tree
  as a string, numbers in decimal, and \<open>aval\<close> is its value when all exponents are
  non-negative.
\<close>

datatype aexp =
    ANum nat
  | AGroup aexp
  | ANeg aexp
  | APos aexp
  | APow aexp aexp
  | AMul aexp aexp
  | AAdd aexp aexp
  | ASub aexp aexp






subsection \<open>Auxiliary functions of the proofs\<close>

text \<open>
  The string after the replacement of the caret, the tokens and the syntax tree of an
  expression, and the recursion depth that suffices to parse it.
\<close>

fun source :: "aexp \<Rightarrow> string" where
  "source (ANum n) = show_nat n"
| "source (AGroup a) = ''('' @ source a @ '')''"
| "source (ANeg a) = ''-'' @ source a"
| "source (APos a) = ''+'' @ source a"
| "source (APow a b) = source a @ ''**'' @ source b"
| "source (AMul a b) = source a @ ''*'' @ source b"
| "source (AAdd a b) = source a @ ''+'' @ source b"
| "source (ASub a b) = source a @ ''-'' @ source b"




















section \<open>Properties of the orchestration loop\<close>

lemma chat_calls_append [simp]: "chat_calls (xs @ ys) = chat_calls xs + chat_calls ys"
  by (simp add: chat_calls_def)

lemma handler_calls_append [simp]: "handler_calls (xs @ ys) = handler_calls xs + handler_calls ys"
  by (simp add: handler_calls_def)

lemma returned_calls_append [simp]:
  "returned_calls (xs @ ys) = returned_calls xs + returned_calls ys"
  by (simp add: returned_calls_def)

lemma counts_Nil [simp]: "chat_calls [] = 0" "handler_calls [] = 0" "returned_calls [] = 0"
  by (simp_all add: chat_calls_def handler_calls_def returned_calls_def)

lemma counts_Cons [simp]:
  "chat_calls (e # tr) = (if is_ChatCall e then 1 else 0) + chat_calls tr"
  "handler_calls (e # tr) = (if is_HandlerCall e then 1 else 0) + handler_calls tr"
  "returned_calls (e # tr) = (if is_returned_call e then 1 else 0) + returned_calls tr"
  by (simp_all add: chat_calls_def handler_calls_def returned_calls_def)

lemma is_returned_call_HandlerCall [simp]:
  "is_returned_call (HandlerCall n a r) = (case r of Returns v \<Rightarrow> True | _ \<Rightarrow> False)"
  by (cases r) simp_all

subsection \<open>\<^verbatim>\<open>str\<close> never raises in the model\<close>

lemma repr_str_no_raise: "repr_str s \<noteq> Raises e"
  by (simp add: repr_str_def)

lemma repr_items_no_raise: "repr_items kvs \<noteq> Raises e"
proof (induction kvs)
  case Nil
  show ?case by simp
next
  case (Cons kv kvs)
  obtain k v where kv: "kv = (k, v)" by (cases kv)
  show ?case
    using Cons.IH repr_str_no_raise[of k] repr_str_no_raise[of v]
    by (cases "repr_str k"; cases "repr_str v"; cases "repr_items kvs")
       (simp_all add: kv bind_outcome_def)
qed

lemma str_value_no_raise [simp]: "str_value v \<noteq> Raises e"
  using repr_items_no_raise
  by (cases v) (auto simp: bind_outcome_def split: outcome.splits)

subsection \<open>One round of the loop\<close>

lemma step_no_function:
  "tc_function tc = None \<Longrightarrow> tool_call_step chat h mdl q msg tc b = (None, b, [])"
  by (simp add: tool_call_step_def)

lemma step_caught:
  "caught h tc \<Longrightarrow> tool_call_step chat h mdl q msg tc b = (None, b, failure_events h tc)"
  by (auto simp: caught_def tool_call_step_def failure_events_def bind_outcome_def Let_def
      split: option.splits outcome.splits)






subsection \<open>The whole loop\<close>

lemma loop_caught:
  "\<forall>tc \<in> set tcs. caught h tc \<Longrightarrow>
    tool_loop chat h mdl q msg tcs b = (None, b, failure_log h tcs)"
  by (induction tcs) (simp_all add: step_caught failure_log_def)






lemma caught_fails: "caught h tc \<Longrightarrow> fails h tc"
  by (auto simp: caught_def fails_def split: option.splits outcome.splits)

lemma handler_fails_caught: "handler_fails h tc \<Longrightarrow> caught h tc"
  by (auto simp: caught_def handler_fails_def split: option.splits)


subsection \<open>The shape of a run\<close>

lemma process_query_loop:
  assumes "chat b (initial_request (self_model self) q) = (Inr r1, b1)"
      and "tool_calls (message r1) = Some tcs"
      and "tool_loop chat h (self_model self) q (message r1) tcs b1 = (res, b2, evs)"
  shows "process_query chat h self q b =
    ((case res of
        Some result \<Rightarrow> result
      | None \<Rightarrow> (case content (message r1) of
                   None \<Rightarrow> Raises (KeyError ''content'')
                 | Some c \<Rightarrow> Returns c)),
     b2,
     [PrintPrompt [user_message q], ChatCall (initial_request (self_model self) q),
      PrintResponse r1] @ evs)"
proof (cases tcs)
  case Nil
  with assms show ?thesis
    by (auto simp: process_query_def Let_def initial_request_def split: option.splits)
next
  case (Cons tc tcs')
  with assms show ?thesis
    by (auto simp: process_query_def Let_def initial_request_def split: option.splits)
qed

lemma arithmetic_2_3:
  "evaluate_arithmetic [(''expression'', JStr ''2^3'')] = Returns (PyInt 8)"
  by code_simp

lemma arithmetic_1_0:
  "evaluate_arithmetic [(''expression'', JStr ''1/0'')] = Raises (ValueError ZeroDivisionError)"
  by code_simp

lemma arithmetic_not_a_string:
  "evaluate_arithmetic [(''expression'', JInt 5)] = Raises (AttributeError ''replace'')"
  by (simp add: evaluate_arithmetic_def)

lemma str_int_8: "str_int 8 = ''8''"
  by code_simp

lemma step_arithmetic_2_3:
  assumes "tc_function tc =
      Some (ToolFunction ''evaluate_arithmetic'' [(''expression'', JStr ''2^3'')])"
    and "chat b (followup_request mdl q msg ''evaluate_arithmetic'' ''8'') = (Inr r2, b2)"
    and "content (message r2) = Some c"
  shows "tool_call_step chat h mdl q msg tc b =
    (Some (Returns c), b2,
     [HandlerCall ''evaluate_arithmetic'' [(''expression'', JStr ''2^3'')] (Returns (PyInt 8)),
      PrintPrompt [user_message q, msg, tool_message ''evaluate_arithmetic'' ''8''],
      ChatCall (followup_request mdl q msg ''evaluate_arithmetic'' ''8''),
      PrintResponse r2])"
proof -
  have msgs: "messages (followup_request mdl q msg ''evaluate_arithmetic'' ''8'') =
      [user_message q, msg, tool_message ''evaluate_arithmetic'' ''8'']"
    by (simp add: followup_request_def)
  show ?thesis
    using assms
    by (simp add: tool_call_step_def TOOLS_def arithmetic_2_3 bind_outcome_def str_int_8 msgs)
qed


section \<open>The claims about \<^verbatim>\<open>process_query\<close>\<close>

text \<open>
  C1. When the first tool call of the backend's first response requests
  \<^verbatim>\<open>evaluate_arithmetic\<close> with the arguments \<^verbatim>\<open>{"expression": "2^3"}\<close>, and the backend
  answers the second call with a message that has a content, \<^verbatim>\<open>process_query\<close> calls the
  handler, which returns 8; it sends a second request of exactly three messages (the
  user's message, the assistant's message with the tool calls, and a message of role
  \<^verbatim>\<open>tool\<close> and name \<^verbatim>\<open>evaluate_arithmetic\<close> whose content is \<^verbatim>\<open>"8"\<close>) and no tool
  definitions; it returns the content of the second response. The trace holds one handler
  call, so the other requested calls are never attempted.
\<close>

theorem process_query_evaluates_2_3:
  assumes "chat b (initial_request (self_model self) q) = (Inr r1, b1)"
      and "tool_calls (message r1) = Some (tc # others)"
      and "tc_function tc =
            Some (ToolFunction ''evaluate_arithmetic'' [(''expression'', JStr ''2^3'')])"
      and "chat b1 (followup_request (self_model self) q (message r1) ''evaluate_arithmetic'' ''8'')
            = (Inr r2, b2)"
      and "content (message r2) = Some c"
  shows "process_query chat h self q b =
      (Returns c, b2,
       [PrintPrompt [user_message q],
        ChatCall (initial_request (self_model self) q),
        PrintResponse r1,
        HandlerCall ''evaluate_arithmetic'' [(''expression'', JStr ''2^3'')] (Returns (PyInt 8)),
        PrintPrompt [user_message q, message r1, tool_message ''evaluate_arithmetic'' ''8''],
        ChatCall (followup_request (self_model self) q (message r1) ''evaluate_arithmetic'' ''8''),
        PrintResponse r2])
    \<and> messages (followup_request (self_model self) q (message r1) ''evaluate_arithmetic'' ''8'')
        = [user_message q, message r1,
           \<lparr>role = ''tool'', content = Some ''8'', name = Some ''evaluate_arithmetic'',
            tool_calls = None\<rparr>]
    \<and> tools (followup_request (self_model self) q (message r1) ''evaluate_arithmetic'' ''8'') = None
    \<and> handler_calls (trace_of (process_query chat h self q b)) = 1
    \<and> chat_calls (trace_of (process_query chat h self q b)) = 2"
proof -
  have loop: "tool_loop chat h (self_model self) q (message r1) (tc # others) b1 =
    (Some (Returns c), b2,
     [HandlerCall ''evaluate_arithmetic'' [(''expression'', JStr ''2^3'')] (Returns (PyInt 8)),
      PrintPrompt [user_message q, message r1, tool_message ''evaluate_arithmetic'' ''8''],
      ChatCall (followup_request (self_model self) q (message r1) ''evaluate_arithmetic'' ''8''),
      PrintResponse r2])"
    by (simp add: step_arithmetic_2_3[where chat = chat and b = b1, OF assms(3,4,5)])
  have run: "process_query chat h self q b =
      (Returns c, b2,
       [PrintPrompt [user_message q],
        ChatCall (initial_request (self_model self) q),
        PrintResponse r1,
        HandlerCall ''evaluate_arithmetic'' [(''expression'', JStr ''2^3'')] (Returns (PyInt 8)),
        PrintPrompt [user_message q, message r1, tool_message ''evaluate_arithmetic'' ''8''],
        ChatCall (followup_request (self_model self) q (message r1) ''evaluate_arithmetic'' ''8''),
        PrintResponse r2])"
    by (simp add: process_query_loop[where chat = chat and b = b, OF assms(1,2) loop])
  show ?thesis
    by (simp add: run trace_of_def) (simp add: followup_request_def tool_message_def)
qed

theorem process_query_evaluates_2_3_witness:
  "scripted [Inr (answer [] [arithmetic_call (JStr ''2^3''), named_call ''get_current_time'']),
             Inr (bare_answer ''2^3 is 8.'')]
     (initial_request (self_model (LLMAgent MODEL)) ''What is 2^3?'')
     = (Inr (answer [] [arithmetic_call (JStr ''2^3''), named_call ''get_current_time'']),
        [Inr (bare_answer ''2^3 is 8.'')])
   \<and> result_of (process_query scripted sample_host (LLMAgent MODEL) ''What is 2^3?''
        [Inr (answer [] [arithmetic_call (JStr ''2^3''), named_call ''get_current_time'']),
         Inr (bare_answer ''2^3 is 8.'')]) = Returns ''2^3 is 8.''
   \<and> handler_calls (trace_of (process_query scripted sample_host (LLMAgent MODEL) ''What is 2^3?''
        [Inr (answer [] [arithmetic_call (JStr ''2^3''), named_call ''get_current_time'']),
         Inr (bare_answer ''2^3 is 8.'')])) = 1"
proof -
  let ?r1 = "answer [] [arithmetic_call (JStr ''2^3''), named_call ''get_current_time'']"
  let ?r2 = "bare_answer ''2^3 is 8.''"
  have 1: "scripted [Inr ?r1, Inr ?r2] (initial_request (self_model (LLMAgent MODEL)) ''What is 2^3?'')
      = (Inr ?r1, [Inr ?r2])"
    by (simp add: scripted_def)
  have 2: "tool_calls (message ?r1) =
      Some (arithmetic_call (JStr ''2^3'') # [named_call ''get_current_time''])"
    by (simp add: answer_def assistant_message_def)
  have 3: "tc_function (arithmetic_call (JStr ''2^3'')) =
      Some (ToolFunction ''evaluate_arithmetic'' [(''expression'', JStr ''2^3'')])"
    by (simp add: arithmetic_call_def)
  have 4: "scripted [Inr ?r2]
      (followup_request (self_model (LLMAgent MODEL)) ''What is 2^3?'' (message ?r1)
        ''evaluate_arithmetic'' ''8'') = (Inr ?r2, [])"
    by (simp add: scripted_def)
  have 5: "content (message ?r2) = Some ''2^3 is 8.''"
    by (simp add: bare_answer_def assistant_message_def)
  from process_query_evaluates_2_3[where chat = scripted and b = "[Inr ?r1, Inr ?r2]"
      and h = sample_host, OF 1 2 3 4 5] 1
  show ?thesis by (simp add: result_of_def trace_of_def)
qed

text \<open>
  C2. When the message of the backend's first response has an empty list of tool calls
  (and a content), \<^verbatim>\<open>process_query\<close> returns that content; the trace holds the first chat
  call only: no handler is called and there is no second chat call.
\<close>

theorem process_query_direct_answer:
  assumes "chat b (initial_request (self_model self) q) = (Inr r1, b1)"
      and "tool_calls (message r1) = Some []"
      and "content (message r1) = Some c"
  shows "process_query chat h self q b =
      (Returns c, b1,
       [PrintPrompt [user_message q], ChatCall (initial_request (self_model self) q),
        PrintResponse r1])"
  using assms by (simp add: process_query_def Let_def initial_request_def)

theorem process_query_direct_answer_witness:
  "scripted [Inr (answer ''Paris.'' [])] (initial_request (self_model (LLMAgent MODEL)) ''Capital of France?'')
     = (Inr (answer ''Paris.'' []), [])
   \<and> tool_calls (message (answer ''Paris.'' [])) = Some []
   \<and> process_query scripted sample_host (LLMAgent MODEL) ''Capital of France?'' [Inr (answer ''Paris.'' [])]
     = (Returns ''Paris.'', [],
        [PrintPrompt [user_message ''Capital of France?''],
         ChatCall (initial_request MODEL ''Capital of France?''),
         PrintResponse (answer ''Paris.'' [])])"
proof -
  have 1: "scripted [Inr (answer ''Paris.'' [])]
      (initial_request (self_model (LLMAgent MODEL)) ''Capital of France?'')
      = (Inr (answer ''Paris.'' []), [])"
    by (simp add: scripted_def)
  have 2: "tool_calls (message (answer ''Paris.'' [])) = Some []"
    by (simp add: answer_def assistant_message_def)
  have 3: "content (message (answer ''Paris.'' [])) = Some ''Paris.''"
    by (simp add: answer_def assistant_message_def)
  from process_query_direct_answer[where chat = scripted and b = "[Inr (answer ''Paris.'' [])]"
      and h = sample_host, OF 1 2 3] 1 2
  show ?thesis by simp
qed

text \<open>
  C5. The message of the first response is subscripted with \<^verbatim>\<open>"tool_calls"\<close>. When the
  backend leaves that key out, the subscript raises \<^verbatim>\<open>KeyError\<close>, which nothing catches:
  \<^verbatim>\<open>process_query\<close> does not return the content.
\<close>

theorem process_query_missing_tool_calls:
  "process_query scripted sample_host (LLMAgent MODEL) ''Hello'' [Inr (bare_answer ''Hi!'')] =
    (Raises (KeyError ''tool_calls''), [],
     [PrintPrompt [user_message ''Hello''], ChatCall (initial_request MODEL ''Hello''),
      PrintResponse (bare_answer ''Hi!'')])"
  by (simp add: process_query_def Let_def scripted_def bare_answer_def assistant_message_def
      initial_request_def)

text \<open>
  C10. When the list of tool calls of the first response is not empty and no entry has a
  \<^verbatim>\<open>function\<close> key, \<^verbatim>\<open>process_query\<close> skips every entry and returns the content of the
  first message; the trace holds the first chat call only.
\<close>

theorem process_query_skips_calls_without_function:
  assumes "chat b (initial_request (self_model self) q) = (Inr r1, b1)"
      and "tool_calls (message r1) = Some tcs"
      and "tcs \<noteq> []"
      and "\<forall>tc \<in> set tcs. tc_function tc = None"
      and "content (message r1) = Some c"
  shows "process_query chat h self q b =
      (Returns c, b1,
       [PrintPrompt [user_message q], ChatCall (initial_request (self_model self) q),
        PrintResponse r1])"
proof -
  from assms(4) have "\<forall>tc \<in> set tcs. caught h tc"
    by (simp add: caught_def)
  then have loop: "tool_loop chat h (self_model self) q (message r1) tcs b1 =
      (None, b1, failure_log h tcs)"
    by (rule loop_caught)
  from assms(4) have "failure_log h tcs = []"
    by (induction tcs) (simp_all add: failure_log_def failure_events_def)
  with process_query_loop[where chat = chat and b = b, OF assms(1,2) loop] assms(5)
  show ?thesis by simp
qed

theorem process_query_skips_calls_without_function_witness:
  "scripted [Inr (answer ''42'' [bare_call, bare_call])]
      (initial_request (self_model (LLMAgent MODEL)) ''Answer?'')
     = (Inr (answer ''42'' [bare_call, bare_call]), [])
   \<and> [bare_call, bare_call] \<noteq> []
   \<and> tc_function bare_call = None
   \<and> process_query scripted sample_host (LLMAgent MODEL) ''Answer?''
        [Inr (answer ''42'' [bare_call, bare_call])]
     = (Returns ''42'', [],
        [PrintPrompt [user_message ''Answer?''], ChatCall (initial_request MODEL ''Answer?''),
         PrintResponse (answer ''42'' [bare_call, bare_call])])"
proof -
  let ?r = "answer ''42'' [bare_call, bare_call]"
  have 1: "scripted [Inr ?r] (initial_request (self_model (LLMAgent MODEL)) ''Answer?'') = (Inr ?r, [])"
    by (simp add: scripted_def)
  have 2: "tool_calls (message ?r) = Some [bare_call, bare_call]"
    by (simp add: answer_def assistant_message_def)
  have 3: "[bare_call, bare_call] \<noteq> []" by simp
  have 4: "\<forall>tc \<in> set [bare_call, bare_call]. tc_function tc = None"
    by (simp add: bare_call_def)
  have 5: "content (message ?r) = Some ''42''"
    by (simp add: answer_def assistant_message_def)
  from process_query_skips_calls_without_function[where chat = scripted and b = "[Inr ?r]"
      and h = sample_host, OF 1 2 3 4 5] 1 4
  show ?thesis by simp
qed




lemma failure_log_counts:
  "\<forall>tc \<in> set tcs. handler_fails h tc \<Longrightarrow>
    handler_calls (failure_log h tcs) = length tcs \<and> chat_calls (failure_log h tcs) = 0"
  by (induction tcs)
     (auto simp: failure_log_def failure_events_def handler_fails_def
       split: option.splits outcome.splits)

text \<open>
  C7, as the code has it. When the handler of every requested tool call raises
  \<^verbatim>\<open>ValueError\<close>, \<^verbatim>\<open>process_query\<close> calls each handler in order, prints each error and goes
  on; after the last one it reaches the final \<^verbatim>\<open>return\<close> and returns the content of the
  first message. There is no second chat call.
\<close>

theorem process_query_all_handlers_fail:
  assumes "chat b (initial_request (self_model self) q) = (Inr r1, b1)"
      and "tool_calls (message r1) = Some tcs"
      and "\<forall>tc \<in> set tcs. handler_fails h tc"
      and "content (message r1) = Some c"
  shows "process_query chat h self q b =
      (Returns c, b1,
       [PrintPrompt [user_message q], ChatCall (initial_request (self_model self) q),
        PrintResponse r1] @ failure_log h tcs)
    \<and> handler_calls (trace_of (process_query chat h self q b)) = length tcs
    \<and> chat_calls (trace_of (process_query chat h self q b)) = 1"
proof -
  from assms(3) have "\<forall>tc \<in> set tcs. caught h tc"
    by (simp add: handler_fails_caught)
  then have loop: "tool_loop chat h (self_model self) q (message r1) tcs b1 =
      (None, b1, failure_log h tcs)"
    by (rule loop_caught)
  from process_query_loop[where chat = chat and b = b, OF assms(1,2) loop] assms(4)
  have run: "process_query chat h self q b =
      (Returns c, b1,
       [PrintPrompt [user_message q], ChatCall (initial_request (self_model self) q),
        PrintResponse r1] @ failure_log h tcs)"
    by simp
  with failure_log_counts[OF assms(3)] show ?thesis
    by (simp add: trace_of_def)
qed

theorem process_query_all_handlers_fail_witness:
  "scripted [Inr (answer ''No result.'' [arithmetic_call (JStr ''1/0''), arithmetic_call (JStr ''1/0'')])]
      (initial_request (self_model (LLMAgent MODEL)) ''What is 1/0?'')
     = (Inr (answer ''No result.'' [arithmetic_call (JStr ''1/0''), arithmetic_call (JStr ''1/0'')]), [])
   \<and> handler_fails sample_host (arithmetic_call (JStr ''1/0''))
   \<and> result_of (process_query scripted sample_host (LLMAgent MODEL) ''What is 1/0?''
        [Inr (answer ''No result.'' [arithmetic_call (JStr ''1/0''), arithmetic_call (JStr ''1/0'')])])
     = Returns ''No result.''
   \<and> handler_calls (trace_of (process_query scripted sample_host (LLMAgent MODEL) ''What is 1/0?''
        [Inr (answer ''No result.'' [arithmetic_call (JStr ''1/0''), arithmetic_call (JStr ''1/0'')])]))
     = 2"
proof -
  let ?r = "answer ''No result.'' [arithmetic_call (JStr ''1/0''), arithmetic_call (JStr ''1/0'')]"
  have 1: "scripted [Inr ?r] (initial_request (self_model (LLMAgent MODEL)) ''What is 1/0?'') = (Inr ?r, [])"
    by (simp add: scripted_def)
  have 2: "tool_calls (message ?r) =
      Some [arithmetic_call (JStr ''1/0''), arithmetic_call (JStr ''1/0'')]"
    by (simp add: answer_def assistant_message_def)
  have f: "handler_fails sample_host (arithmetic_call (JStr ''1/0''))"
    by (simp add: handler_fails_def arithmetic_call_def TOOLS_def arithmetic_1_0)
  then have 3: "\<forall>tc \<in> set [arithmetic_call (JStr ''1/0''), arithmetic_call (JStr ''1/0'')].
      handler_fails sample_host tc"
    by simp
  have 4: "content (message ?r) = Some ''No result.''"
    by (simp add: answer_def assistant_message_def)
  note run = process_query_all_handlers_fail[where chat = scripted and b = "[Inr ?r]"
      and h = sample_host, OF 1 2 3 4]
  from run[THEN conjunct1]
  have res: "result_of (process_query scripted sample_host (LLMAgent MODEL) ''What is 1/0?'' [Inr ?r])
      = Returns ''No result.''"
    by (simp add: result_of_def)
  from run[THEN conjunct2, THEN conjunct1]
  have calls: "handler_calls (trace_of
      (process_query scripted sample_host (LLMAgent MODEL) ''What is 1/0?'' [Inr ?r])) = 2"
    by simp
  from 1 f res calls show ?thesis by blast
qed

text \<open>
  C7, as the claim has it, fails: when every handler fails, the call still has a result,
  the content of the first message.
\<close>

theorem process_query_all_handlers_fail_counterexample:
  "handler_fails sample_host (arithmetic_call (JStr ''1/0''))
   \<and> result_of (process_query scripted sample_host (LLMAgent MODEL) ''What is 1/0?''
        [Inr (answer ''I cannot divide by zero.'' [arithmetic_call (JStr ''1/0'')])])
     = Returns ''I cannot divide by zero.''"
  by (simp add: handler_fails_def arithmetic_call_def TOOLS_def arithmetic_1_0 result_of_def
      process_query_def Let_def scripted_def answer_def assistant_message_def initial_request_def
      tool_call_step_def bind_outcome_def)






section \<open>The claim about \<^verbatim>\<open>get_current_time\<close>\<close>













section \<open>The claims about \<^verbatim>\<open>evaluate_arithmetic\<close>\<close>

subsection \<open>Sequencing\<close>

lemma bind_Returns [simp]: "bind_outcome (Returns x) f = f x"
  by (simp add: bind_outcome_def)

lemma bind_Raises [simp]: "bind_outcome (Raises e) f = Raises e"
  by (simp add: bind_outcome_def)

lemma bind_Unmodelled [simp]: "bind_outcome Unmodelled f = Unmodelled"
  by (simp add: bind_outcome_def)



subsection \<open>Decimal numerals\<close>




lemma show_nat_not_Nil [simp]: "show_nat n \<noteq> []"
  by (subst show_nat.simps) simp






lemma is_digit_not_letter: "is_digit c \<Longrightarrow> \<not> is_letter c"
  by (auto simp: is_digit_def is_letter_def)










subsection \<open>The tokens of a rendered expression\<close>









lemma not_ident_operators [simp]:
  "\<not> is_ident_char CHR ''+''" "\<not> is_ident_char CHR ''-''" "\<not> is_ident_char CHR ''*''"
  "\<not> is_ident_char CHR '')''"
  by (simp_all add: is_ident_char_def is_letter_def is_digit_def)







subsection \<open>More recursion depth does not change a result\<close>

declare parse_rule.simps [simp del]


lemma parse_rule_0 [simp]: "parse_rule 0 rl ts = Unmodelled"
  by (simp add: parse_rule.simps(1))





subsection \<open>The parser on the tokens of an expression\<close>























subsection \<open>From one level to the next\<close>





subsection \<open>One lemma for each construction\<close>








subsection \<open>All expressions of the grammar\<close>










subsection \<open>Names\<close>















end
